theory Spec2Isabelle
  imports Complex_Main
begin

section \<open>Values, errors and the HTTP exchange\<close>

text \<open>
  A Python \<open>float\<close>: a finite number, an infinity or a NaN. The arguments \<open>value\<close>,
  \<open>shares\<close> and \<open>slippage\<close> are stored and passed on, never computed with, so a
  finite float is carried by the real number it stands for.
\<close>

datatype pyfloat = Num real | PosInf | NegInf | NaN

fun is_finite :: "pyfloat \<Rightarrow> bool" where
  "is_finite (Num x) = True"
| "is_finite _ = False"

text \<open>
  A Python \<open>dict\<close> with its keys in insertion order; \<open>dict_set k v d\<close> is the assignment
  \<open>d[k] = v\<close>, and \<open>map_of d k\<close> looks the key up. A \<open>string\<close> holds a Python \<open>str\<close>,
  one \<open>char\<close> for each of its characters.
\<close>

fun dict_set :: "'k \<Rightarrow> 'v \<Rightarrow> ('k \<times> 'v) list \<Rightarrow> ('k \<times> 'v) list" where
  "dict_set k v [] = [(k, v)]"
| "dict_set k v ((k', v') # d) = (if k' = k then (k, v) # d else (k', v') # dict_set k v d)"

text \<open>The JSON values the client puts into query parameters and request bodies.\<close>

datatype jval = JStr string | JInt int | JNum pyfloat

type_synonym jdict = "(string \<times> jval) list"

text \<open>
  The exceptions of \<open>myriad_client.py\<close>: \<open>ValueError\<close> with its message, raised by the
  request builders, and the \<open>requests.exceptions.RequestException\<close> family raised by the
  transport: \<open>InvalidJSONError\<close> for a body that cannot be encoded, \<open>RetryError\<close> when
  the retry budget is used up, \<open>HTTPError\<close> from \<open>raise_for_status\<close>, \<open>JSONDecodeError\<close>
  from \<open>response.json()\<close>.
\<close>

datatype error = ValueError string | InvalidJSONError | RetryError | HTTPError nat | JSONDecodeError

text \<open>The arguments of \<open>session.request\<close>; \<open>verb\<close> is its \<open>method\<close> argument.\<close>

record http_request =
  verb :: string
  url :: string
  params :: "jdict option"
  json :: "jdict option"

record response =
  status_code :: nat
  body :: "jval option"

text \<open>
  The network: \<open>upstream\<close> is the answer the upstream service gives to the \<open>i\<close>-th request
  it receives, \<open>wire\<close> is the list of requests transmitted so far, oldest first. A call
  that leaves \<open>wire\<close> unchanged has made no network call.
\<close>

record world =
  upstream :: "nat \<Rightarrow> response"
  wire :: "http_request list"

definition transmitted :: "world \<Rightarrow> world \<Rightarrow> http_request list" where
  "transmitted w w' = drop (length (wire w)) (wire w')"

section \<open>The client and its transport\<close>

text \<open>\<open>Retry(total=3, backoff_factor=1, status_forcelist=[...], allowed_methods=[...])\<close>\<close>

record retry =
  total :: nat
  backoff_factor :: nat
  status_forcelist :: "nat list"
  allowed_methods :: "string list"

definition retry_strategy :: retry where
  "retry_strategy =
     \<lparr>total = 3, backoff_factor = 1, status_forcelist = [429, 500, 502, 503, 504],
      allowed_methods = [''GET'', ''POST'']\<rparr>"

record client =
  api_key :: "string option"
  base_url :: string
  timeout :: nat
  max_retries :: retry

definition rstrip :: "char \<Rightarrow> string \<Rightarrow> string" where
  "rstrip c s = rev (dropWhile (\<lambda>x. x = c) (rev s))"

definition lstrip :: "char \<Rightarrow> string \<Rightarrow> string" where
  "lstrip c s = dropWhile (\<lambda>x. x = c) s"

text \<open>
  \<open>MyriadAPIClient.__init__\<close>; \<open>env_key\<close> is the value of the environment variable
  \<open>MYRIAD_API_KEY\<close>. Python's \<open>api_key or os.getenv(...)\<close> takes the argument unless it is
  \<open>None\<close> or empty.
\<close>

definition truthy :: "string option \<Rightarrow> string option" where
  "truthy s = (case s of None \<Rightarrow> None | Some t \<Rightarrow> if t = [] then None else Some t)"

definition MyriadAPIClient :: "string option \<Rightarrow> string option \<Rightarrow> string \<Rightarrow> nat \<Rightarrow> client" where
  "MyriadAPIClient env_key key burl tmo =
     \<lparr>api_key = (case truthy key of Some k \<Rightarrow> Some k | None \<Rightarrow> env_key),
      base_url = rstrip CHR ''/'' burl,
      timeout = tmo,
      max_retries = retry_strategy\<rparr>"

text \<open>
  Modelled from the spec: what the HTTP library does behind \<open>session.request\<close>
  (\<open>requests\<close> with \<open>HTTPAdapter(max_retries=retry_strategy)\<close>), which is not under src/.

  \<^item> Before anything is sent the JSON body is encoded, and the encoder refuses an
    infinity or a NaN: the call ends with \<open>InvalidJSONError\<close> and no request goes out.
  \<^item> A response is retried when the method is one of \<open>allowed_methods\<close> and its status
    is in \<open>status_forcelist\<close>; every retry takes one from \<open>total\<close>, and a retryable
    response that arrives when nothing is left of \<open>total\<close> ends the call with
    \<open>RetryError\<close>. The first argument of \<open>urlopen\<close> is what is left of \<open>total\<close>.

  The waiting between attempts (\<open>backoff_factor\<close>) and failures to connect are not
  modelled.
\<close>

fun finite_jval :: "jval \<Rightarrow> bool" where
  "finite_jval (JNum x) = is_finite x"
| "finite_jval _ = True"

definition json_ok :: "jdict option \<Rightarrow> bool" where
  "json_ok js = (case js of None \<Rightarrow> True | Some b \<Rightarrow> list_all (\<lambda>(k, v). finite_jval v) b)"

definition is_retry :: "retry \<Rightarrow> string \<Rightarrow> nat \<Rightarrow> bool" where
  "is_retry r m st \<longleftrightarrow> m \<in> set (allowed_methods r) \<and> st \<in> set (status_forcelist r)"

definition attempt :: "http_request \<Rightarrow> world \<Rightarrow> response \<times> world" where
  "attempt req w = (upstream w (length (wire w)), w\<lparr>wire := wire w @ [req]\<rparr>)"

fun urlopen :: "nat \<Rightarrow> retry \<Rightarrow> http_request \<Rightarrow> world \<Rightarrow> (error + response) \<times> world" where
  "urlopen 0 r req w =
     (case attempt req w of (resp, w') \<Rightarrow>
        if is_retry r (verb req) (status_code resp) then (Inl RetryError, w')
        else (Inr resp, w'))"
| "urlopen (Suc n) r req w =
     (case attempt req w of (resp, w') \<Rightarrow>
        if is_retry r (verb req) (status_code resp) then urlopen n r req w'
        else (Inr resp, w'))"

definition session_request :: "client \<Rightarrow> http_request \<Rightarrow> world \<Rightarrow> (error + response) \<times> world" where
  "session_request c req w =
     (if json_ok (json req) then urlopen (total (max_retries c)) (max_retries c) req w
      else (Inl InvalidJSONError, w))"

text \<open>
  \<open>_make_request\<close>: build the URL, send, \<open>raise_for_status\<close> (an error for a status from
  400 to 599), then \<open>response.json()\<close>. The \<open>except\<close> clause logs and re-raises.
\<close>

definition make_url :: "client \<Rightarrow> string \<Rightarrow> string" where
  "make_url c endpoint = base_url c @ ''/'' @ lstrip CHR ''/'' endpoint"

definition raise_for_status :: "response \<Rightarrow> error + response" where
  "raise_for_status resp =
     (if 400 \<le> status_code resp \<and> status_code resp < 600
      then Inl (HTTPError (status_code resp)) else Inr resp)"

definition response_json :: "response \<Rightarrow> error + jval" where
  "response_json resp = (case body resp of None \<Rightarrow> Inl JSONDecodeError | Some j \<Rightarrow> Inr j)"

definition make_request ::
  "client \<Rightarrow> string \<Rightarrow> string \<Rightarrow> jdict option \<Rightarrow> jdict option \<Rightarrow> world \<Rightarrow> (error + jval) \<times> world" where
  "make_request c m endpoint ps js w =
     (case session_request c \<lparr>verb = m, url = make_url c endpoint, params = ps, json = js\<rparr> w of
        (Inl e, w') \<Rightarrow> (Inl e, w')
      | (Inr resp, w') \<Rightarrow>
          (case raise_for_status resp of
             Inl e \<Rightarrow> (Inl e, w')
           | Inr resp' \<Rightarrow> (response_json resp', w')))"

section \<open>The quote request\<close>

text \<open>
  The keyword arguments of \<open>get_market_quote\<close>. \<open>None\<close> is Python's \<open>None\<close>, the default
  of every optional argument; for \<open>slippage\<close>, whose default is \<open>0.005\<close>, \<open>None\<close> stands
  for an argument left out.
\<close>

record quote_args =
  outcome_id :: int
  action :: string
  market_id :: "int option"
  market_slug :: "string option"
  network_id :: "int option"
  qvalue :: "pyfloat option"
  shares :: "pyfloat option"
  slippage :: "pyfloat option"

definition slippage_of :: "quote_args \<Rightarrow> pyfloat" where
  "slippage_of a = (case slippage a of None \<Rightarrow> Num 0.005 | Some s \<Rightarrow> s)"

text \<open>Lines 319 to 324: the addressing mode, slug first.\<close>

definition quote_addressing :: "quote_args \<Rightarrow> error + jdict" where
  "quote_addressing a =
     (case truthy (market_slug a) of
        Some s \<Rightarrow> Inr [(''market_slug'', JStr s)]
      | None \<Rightarrow>
          (case (market_id a, network_id a) of
             (Some m, Some n) \<Rightarrow> Inr [(''market_id'', JInt m), (''network_id'', JInt n)]
           | _ \<Rightarrow> Inl (ValueError ''Must provide either market_slug or (market_id + network_id)'')))"

text \<open>Lines 326 to 343: the common keys, then the branch on the action.\<close>

definition quote_sizing :: "quote_args \<Rightarrow> jdict \<Rightarrow> error + jdict" where
  "quote_sizing a b0 =
     (let b = dict_set ''slippage'' (JNum (slippage_of a))
               (dict_set ''action'' (JStr (action a))
                 (dict_set ''outcome_id'' (JInt (outcome_id a)) b0))
      in if action a = ''buy'' then
           (case qvalue a of
              None \<Rightarrow> Inl (ValueError ''For buy action, 'value' is required'')
            | Some v \<Rightarrow> Inr (dict_set ''value'' (JNum v) b))
         else if action a = ''sell'' then
           (case (qvalue a, shares a) of
              (None, None) \<Rightarrow> Inl (ValueError ''For sell action, either 'value' or 'shares' is required'')
            | (Some v, _) \<Rightarrow> Inr (dict_set ''value'' (JNum v) b)
            | (None, Some sh) \<Rightarrow> Inr (dict_set ''shares'' (JNum sh) b))
         else Inl (ValueError (''Action must be 'buy' or 'sell'' @ [CHR 0x27])))"

definition quote_body :: "quote_args \<Rightarrow> error + jdict" where
  "quote_body a = (case quote_addressing a of Inl e \<Rightarrow> Inl e | Inr b0 \<Rightarrow> quote_sizing a b0)"

definition get_market_quote :: "client \<Rightarrow> quote_args \<Rightarrow> world \<Rightarrow> (error + jval) \<times> world" where
  "get_market_quote c a w =
     (case quote_body a of
        Inl e \<Rightarrow> (Inl e, w)
      | Inr b \<Rightarrow> make_request c ''POST'' ''/markets/quote'' None (Some b) w)"

section \<open>Market lookup, events and holders\<close>

text \<open>Python's \<open>str\<close> of an integer, as the f-strings \<open>f"/markets/{market_id}"\<close> use it.\<close>

definition digit_char :: "nat \<Rightarrow> char" where
  "digit_char d = ''0123456789'' ! (d mod 10)"

function str_nat :: "nat \<Rightarrow> string" where
  "str_nat n = (if n < 10 then [digit_char n] else str_nat (n div 10) @ [digit_char (n mod 10)])"
  by pat_completeness auto
termination
  by (relation "measure (\<lambda>n. n)") auto

declare str_nat.simps [simp del]

definition str_int :: "int \<Rightarrow> string" where
  "str_int i = (if i < 0 then CHR ''-'' # str_nat (nat (- i)) else str_nat (nat i))"

text \<open>\<open>get_market\<close>, lines 209 to 214.\<close>

definition get_market ::
  "client \<Rightarrow> int option \<Rightarrow> string option \<Rightarrow> int option \<Rightarrow> world \<Rightarrow> (error + jval) \<times> world" where
  "get_market c mid slug nid w =
     (case truthy slug of
        Some s \<Rightarrow> make_request c ''GET'' (''/markets/'' @ s) None None w
      | None \<Rightarrow>
          (case (mid, nid) of
             (Some m, Some n) \<Rightarrow>
               make_request c ''GET'' (''/markets/'' @ str_int m) (Some [(''network_id'', JInt n)]) None w
           | _ \<Rightarrow> (Inl (ValueError ''Must provide either slug or (market_id + network_id)''), w)))"

text \<open>
  \<open>get_market_events\<close>, lines 241 to 256: the query parameters first, then the endpoint.
  The result of \<open>events_request\<close> is the endpoint and the parameters handed to
  \<open>_make_request\<close>.
\<close>

definition put_opt :: "string \<Rightarrow> int option \<Rightarrow> jdict \<Rightarrow> jdict" where
  "put_opt k v ps = (case v of None \<Rightarrow> ps | Some x \<Rightarrow> dict_set k (JInt x) ps)"

definition events_request ::
  "int option \<Rightarrow> string option \<Rightarrow> int option \<Rightarrow> int \<Rightarrow> int \<Rightarrow> int option \<Rightarrow> int option
     \<Rightarrow> error + string \<times> jdict" where
  "events_request mid slug nid page limit since until =
     (let ps = put_opt ''network_id'' nid
                (put_opt ''until'' until
                  (put_opt ''since'' since [(''page'', JInt page), (''limit'', JInt limit)]))
      in case truthy slug of
           Some s \<Rightarrow> Inr (''/markets/'' @ s @ ''/events'', ps)
         | None \<Rightarrow>
             (case mid of
                Some m \<Rightarrow> Inr (''/markets/'' @ str_int m @ ''/events'', ps)
              | None \<Rightarrow> Inl (ValueError ''Must provide either slug or market_id'')))"

definition get_market_events ::
  "client \<Rightarrow> int option \<Rightarrow> string option \<Rightarrow> int option \<Rightarrow> int \<Rightarrow> int \<Rightarrow> int option \<Rightarrow> int option
     \<Rightarrow> world \<Rightarrow> (error + jval) \<times> world" where
  "get_market_events c mid slug nid page limit since until w =
     (case events_request mid slug nid page limit since until of
        Inl e \<Rightarrow> (Inl e, w)
      | Inr (endpoint, ps) \<Rightarrow> make_request c ''GET'' endpoint (Some ps) None w)"

text \<open>\<open>get_market_holders\<close>, lines 279 to 290.\<close>

definition holders_request ::
  "int option \<Rightarrow> string option \<Rightarrow> int option \<Rightarrow> int \<Rightarrow> int \<Rightarrow> error + string \<times> jdict" where
  "holders_request mid slug nid page limit =
     (let ps = put_opt ''network_id'' nid [(''page'', JInt page), (''limit'', JInt limit)]
      in case truthy slug of
           Some s \<Rightarrow> Inr (''/markets/'' @ s @ ''/holders'', ps)
         | None \<Rightarrow>
             (case mid of
                Some m \<Rightarrow> Inr (''/markets/'' @ str_int m @ ''/holders'', ps)
              | None \<Rightarrow> Inl (ValueError ''Must provide either slug or market_id'')))"

definition get_market_holders ::
  "client \<Rightarrow> int option \<Rightarrow> string option \<Rightarrow> int option \<Rightarrow> int \<Rightarrow> int \<Rightarrow> world
     \<Rightarrow> (error + jval) \<times> world" where
  "get_market_holders c mid slug nid page limit w =
     (case holders_request mid slug nid page limit of
        Inl e \<Rightarrow> (Inl e, w)
      | Inr (endpoint, ps) \<Rightarrow> make_request c ''GET'' endpoint (Some ps) None w)"

section \<open>The gateway state of \<open>api.py\<close>\<close>

text \<open>
  The state is a Python dictionary whose values are whatever the callers put there: the
  body of \<open>POST /internal/update-state\<close> is a \<open>Dict[str, Any]\<close> that nothing checks. So
  a value is any value JSON can hold. A \<open>PDict\<close> lists the items of a dictionary, each
  key once.
\<close>

datatype pyval =
    PNone
  | PBool bool
  | PInt int
  | PFloat pyfloat
  | PStr string
  | PList "pyval list"
  | PDict "(string \<times> pyval) list"

type_synonym pydict = "(string \<times> pyval) list"

text \<open>\<open>d.get(k)\<close>: the value of the key, \<open>None\<close> when the key is absent.\<close>

definition dict_get :: "pydict \<Rightarrow> string \<Rightarrow> pyval" where
  "dict_get d k = (case map_of d k of None \<Rightarrow> PNone | Some v \<Rightarrow> v)"

text \<open>
  The pydantic models of the two ingestion endpoints that validate their body, with the
  record fields prefixed, and the dictionaries \<open>.dict()\<close> makes of them.
\<close>

record TradeDecision =
  dec_timestamp :: string
  dec_asset :: string
  dec_action :: string
  dec_conviction :: string
  dec_signal_type :: string
  dec_reasoning :: string
  dec_position_size :: "pyfloat option"
  dec_entry_price :: "pyfloat option"
  dec_take_profit :: "pyfloat option"
  dec_stop_loss :: "pyfloat option"

record Trade =
  trade_timestamp :: string
  trade_asset :: string
  trade_action :: string
  trade_size :: pyfloat
  trade_price :: pyfloat
  trade_value :: pyfloat
  trade_status :: string

definition opt_float :: "pyfloat option \<Rightarrow> pyval" where
  "opt_float x = (case x of None \<Rightarrow> PNone | Some f \<Rightarrow> PFloat f)"

definition decision_dict :: "TradeDecision \<Rightarrow> pyval" where
  "decision_dict d =
     PDict [(''timestamp'', PStr (dec_timestamp d)), (''asset'', PStr (dec_asset d)),
            (''action'', PStr (dec_action d)), (''conviction'', PStr (dec_conviction d)),
            (''signal_type'', PStr (dec_signal_type d)), (''reasoning'', PStr (dec_reasoning d)),
            (''position_size'', opt_float (dec_position_size d)),
            (''entry_price'', opt_float (dec_entry_price d)),
            (''take_profit'', opt_float (dec_take_profit d)),
            (''stop_loss'', opt_float (dec_stop_loss d))]"

definition trade_dict :: "Trade \<Rightarrow> pyval" where
  "trade_dict t =
     PDict [(''timestamp'', PStr (trade_timestamp t)), (''asset'', PStr (trade_asset t)),
            (''action'', PStr (trade_action t)), (''size'', PFloat (trade_size t)),
            (''price'', PFloat (trade_price t)), (''value'', PFloat (trade_value t)),
            (''status'', PStr (trade_status t))]"

definition gtrader_state0 :: pydict where
  "gtrader_state0 =
     [(''status'', PStr ''idle''), (''last_update'', PNone), (''account_value'', PFloat (Num 0)),
      (''positions'', PList []), (''recent_decisions'', PList []), (''trade_history'', PList []),
      (''market_analyses'', PList [])]"

text \<open>
  What a caller of the gateway sees of a failure: 422 when the framework refuses the
  request against the declared parameters, 500 when the handler raises.
\<close>

datatype api_error = RequestValidationError | InternalServerError

text \<open>
  \<open>update_state\<close>: \<open>gtrader_state.update(state_data)\<close>, key by key, then \<open>last_update\<close>
  is set to the clock reading \<open>now\<close>.
\<close>

definition py_update :: "pydict \<Rightarrow> pydict \<Rightarrow> pydict" where
  "py_update s d = foldl (\<lambda>s' (k, v). dict_set k v s') s d"

definition update_state :: "pydict \<Rightarrow> string \<Rightarrow> pydict \<Rightarrow> pydict" where
  "update_state state_data now s = dict_set ''last_update'' (PStr now) (py_update s state_data)"

text \<open>
  \<open>add_decision\<close>: \<open>insert(0, ...)\<close>, then the slice \<open>[:100]\<close>. Only a list has
  \<open>insert\<close>: on any other value the handler raises before it has changed anything.
  \<open>add_trade\<close> likewise, without the slice.
\<close>

definition add_decision :: "TradeDecision \<Rightarrow> pydict \<Rightarrow> api_error + pydict" where
  "add_decision d s =
     (case map_of s ''recent_decisions'' of
        Some (PList xs) \<Rightarrow> Inr (dict_set ''recent_decisions'' (PList (take 100 (decision_dict d # xs))) s)
      | _ \<Rightarrow> Inl InternalServerError)"

definition add_trade :: "Trade \<Rightarrow> pydict \<Rightarrow> api_error + pydict" where
  "add_trade t s =
     (case map_of s ''trade_history'' of
        Some (PList xs) \<Rightarrow> Inr (dict_set ''trade_history'' (PList (trade_dict t # xs)) s)
      | _ \<Rightarrow> Inl InternalServerError)"

definition startup_event :: "string \<Rightarrow> pydict \<Rightarrow> pydict" where
  "startup_event now s = dict_set ''last_update'' (PStr now) (dict_set ''status'' (PStr ''running'') s)"

definition shutdown_event :: "pydict \<Rightarrow> pydict" where
  "shutdown_event s = dict_set ''status'' (PStr ''stopped'') s"

text \<open>
  The operations that write the state; every other endpoint only reads it. An operation
  that raises leaves the state as it was, and the gateway goes on serving.
\<close>

datatype gateway_op =
    UpdateState pydict string
  | AddDecision TradeDecision
  | AddTrade Trade
  | Startup string
  | Shutdown

fun step :: "gateway_op \<Rightarrow> pydict \<Rightarrow> pydict" where
  "step (UpdateState d now) s = update_state d now s"
| "step (AddDecision d) s = (case add_decision d s of Inl e \<Rightarrow> s | Inr s' \<Rightarrow> s')"
| "step (AddTrade t) s = (case add_trade t s of Inl e \<Rightarrow> s | Inr s' \<Rightarrow> s')"
| "step (Startup now) s = startup_event now s"
| "step Shutdown s = shutdown_event s"

definition run :: "gateway_op list \<Rightarrow> pydict \<Rightarrow> pydict" where
  "run ops s = foldl (\<lambda>s' op. step op s') s ops"

definition ingest :: "TradeDecision list \<Rightarrow> pydict \<Rightarrow> pydict" where
  "ingest ds s = run (map AddDecision ds) s"

text \<open>
  The bound on the recent decisions: the value under \<open>recent_decisions\<close> is not a list
  of more than 100 entries. \<open>breaks_bound\<close> holds of the one kind of operation that can
  put such a list there.
\<close>

fun over_bound :: "pyval \<Rightarrow> bool" where
  "over_bound (PList xs) = (100 < length xs)"
| "over_bound _ = False"

definition decisions_bounded :: "pydict \<Rightarrow> bool" where
  "decisions_bounded s = (case map_of s ''recent_decisions'' of None \<Rightarrow> True | Some v \<Rightarrow> \<not> over_bound v)"

fun breaks_bound :: "gateway_op \<Rightarrow> bool" where
  "breaks_bound (UpdateState d now) = list_ex (\<lambda>(k, v). k = ''recent_decisions'' \<and> over_bound v) d"
| "breaks_bound _ = False"

section \<open>\<open>GET /trades\<close>\<close>

text \<open>
  The handler \<open>get_trade_history\<close>, as the value it returns or the failure it ends in.
  The framework afterwards serialises the value through \<open>response_model\<close>, which is
  left out.

  \<^item> \<open>limit\<close> is declared \<open>Query(50, ge=1, le=500)\<close>: left out it is 50, and out of range
    the request is refused before the handler runs.
  \<^item> \<open>if asset:\<close> and \<open>if status:\<close> skip the filter for \<open>None\<close> and for the empty string.
  \<^item> \<open>[t for t in trades if t.get(k) == x]\<close> walks what \<open>trades\<close> holds: the entries of
    a list, the characters of a string, the keys of a dictionary; anything else cannot
    be walked. Only a dictionary has \<open>get\<close>, and its value equals the string \<open>x\<close> only
    when it is that string.
  \<^item> \<open>trades[:limit]\<close> is defined on lists and strings.
  \<^item> \<open>str.upper\<close> is Python's own, not part of the repository: it is the parameter
    \<open>str_upper\<close>.
\<close>

definition effective_limit :: "int option \<Rightarrow> int" where
  "effective_limit limit = (case limit of None \<Rightarrow> 50 | Some l \<Rightarrow> l)"

fun py_iter :: "pyval \<Rightarrow> api_error + pyval list" where
  "py_iter (PList xs) = Inr xs"
| "py_iter (PStr s) = Inr (map (\<lambda>c. PStr [c]) s)"
| "py_iter (PDict d) = Inr (map (\<lambda>(k, v). PStr k) d)"
| "py_iter _ = Inl InternalServerError"

fun keep_if :: "string \<Rightarrow> string \<Rightarrow> pyval list \<Rightarrow> api_error + pyval list" where
  "keep_if k x [] = Inr []"
| "keep_if k x (PDict d # ts) =
     (case keep_if k x ts of
        Inl e \<Rightarrow> Inl e
      | Inr rs \<Rightarrow> Inr (if dict_get d k = PStr x then PDict d # rs else rs))"
| "keep_if k x (t # ts) = Inl InternalServerError"

definition filter_field :: "string \<Rightarrow> string option \<Rightarrow> pyval \<Rightarrow> api_error + pyval" where
  "filter_field k want trades =
     (case want of
        None \<Rightarrow> Inr trades
      | Some x \<Rightarrow>
          (case py_iter trades of
             Inl e \<Rightarrow> Inl e
           | Inr ts \<Rightarrow> (case keep_if k x ts of Inl e \<Rightarrow> Inl e | Inr rs \<Rightarrow> Inr (PList rs))))"

fun py_slice :: "int \<Rightarrow> pyval \<Rightarrow> api_error + pyval" where
  "py_slice n (PList xs) = Inr (PList (take (nat n) xs))"
| "py_slice n (PStr s) = Inr (PStr (take (nat n) s))"
| "py_slice n _ = Inl InternalServerError"

definition get_trade_history ::
  "(string \<Rightarrow> string) \<Rightarrow> pydict \<Rightarrow> int option \<Rightarrow> string option \<Rightarrow> string option
     \<Rightarrow> api_error + pyval" where
  "get_trade_history str_upper s limit asset st =
     (let n = effective_limit limit
      in if n < 1 \<or> 500 < n then Inl RequestValidationError
         else
           (case map_of s ''trade_history'' of
              None \<Rightarrow> Inl InternalServerError
            | Some trades \<Rightarrow>
                (case filter_field ''asset'' (map_option str_upper (truthy asset)) trades of
                   Inl e \<Rightarrow> Inl e
                 | Inr t1 \<Rightarrow>
                     (case filter_field ''status'' (truthy st) t1 of
                        Inl e \<Rightarrow> Inl e
                      | Inr t2 \<Rightarrow> py_slice n t2))))"

text \<open>The trades a list of stored entries holds for an asset and a status.\<close>

fun is_dict :: "pyval \<Rightarrow> bool" where
  "is_dict (PDict d) = True"
| "is_dict _ = False"

fun field :: "string \<Rightarrow> pyval \<Rightarrow> pyval" where
  "field k (PDict d) = dict_get d k"
| "field k _ = PNone"

definition matches :: "string \<Rightarrow> string \<Rightarrow> pyval \<Rightarrow> bool" where
  "matches a x t \<longleftrightarrow> is_dict t \<and> field ''asset'' t = PStr a \<and> field ''status'' t = PStr x"

section \<open>Example inputs\<close>

text \<open>
  The client as \<open>api.py\<close> builds it with no key configured, an upstream whose \<open>i\<close>-th
  answer has the status \<open>st i\<close>, the quote of the module's own usage example, a numbered
  decision and a trade for the gateway, and \<open>str.upper\<close> as it is on strings of ASCII
  characters, which is what the examples use.
\<close>

definition client0 :: client where
  "client0 = MyriadAPIClient None None ''https://api-v2.myriadprotocol.com/'' 30"

definition answering :: "(nat \<Rightarrow> nat) \<Rightarrow> world" where
  "answering st = \<lparr>upstream = (\<lambda>i. \<lparr>status_code = st i, body = Some (JStr ''ok'')\<rparr>), wire = []\<rparr>"

definition quote0 :: quote_args where
  "quote0 =
     \<lparr>outcome_id = 0, action = ''buy'', market_id = None, market_slug = Some ''btc-100k'',
      network_id = None, qvalue = Some (Num 100), shares = None, slippage = Some (Num 0.01)\<rparr>"

definition decision_no :: "nat \<Rightarrow> TradeDecision" where
  "decision_no n =
     \<lparr>dec_timestamp = str_nat n, dec_asset = ''BTC'', dec_action = ''buy'', dec_conviction = ''high'',
      dec_signal_type = ''momentum'', dec_reasoning = ''breakout'', dec_position_size = None,
      dec_entry_price = None, dec_take_profit = None, dec_stop_loss = None\<rparr>"

definition trade_of :: "string \<Rightarrow> string \<Rightarrow> Trade" where
  "trade_of a st =
     \<lparr>trade_timestamp = ''2025-01-01T00:00:00'', trade_asset = a, trade_action = ''buy'',
      trade_size = Num 1, trade_price = Num 100, trade_value = Num 100, trade_status = st\<rparr>"

definition ascii_lowercase :: string where
  "ascii_lowercase = ''abcdefghijklmnopqrstuvwxyz''"

definition ascii_uppercase :: string where
  "ascii_uppercase = ''ABCDEFGHIJKLMNOPQRSTUVWXYZ''"

definition ascii_upper :: "string \<Rightarrow> string" where
  "ascii_upper s =
     map (\<lambda>c. case map_of (zip ascii_lowercase ascii_uppercase) c of Some u \<Rightarrow> u | None \<Rightarrow> c) s"

section \<open>Dictionaries\<close>

lemma map_of_dict_set: "map_of (dict_set k v d) = (map_of d)(k \<mapsto> v)"
  by (induction d) (auto simp: fun_eq_iff)

lemma list_all_dict_set: "list_all P d \<Longrightarrow> P (k, v) \<Longrightarrow> list_all P (dict_set k v d)"
  by (induction d) auto

section \<open>What every transport call does\<close>

text \<open>
  A call of the transport whose body can be encoded transmits the same request once or
  more, at most once more than the retry budget; a call whose body cannot be encoded
  transmits nothing. The builders' \<open>ValueError\<close> never comes out of the transport.
\<close>

lemma urlopen_wire:
  "\<exists>k. 1 \<le> k \<and> k \<le> Suc n \<and> snd (urlopen n r req w) = w\<lparr>wire := wire w @ replicate k req\<rparr>"
proof (induction n arbitrary: w)
  case 0
  have "snd (urlopen 0 r req w) = w\<lparr>wire := wire w @ replicate 1 req\<rparr>"
    by (simp add: attempt_def)
  then show ?case by (intro exI [of _ 1]) simp
next
  case (Suc n)
  let ?w' = "w\<lparr>wire := wire w @ [req]\<rparr>"
  show ?case
  proof (cases "is_retry r (verb req) (status_code (upstream w (length (wire w))))")
    case True
    from Suc.IH [of ?w'] obtain k where k: "1 \<le> k" "k \<le> Suc n"
      "snd (urlopen n r req ?w') = ?w'\<lparr>wire := wire ?w' @ replicate k req\<rparr>" by blast
    have "snd (urlopen (Suc n) r req w) = w\<lparr>wire := wire w @ replicate (Suc k) req\<rparr>"
      using True k(3) by (simp add: attempt_def)
    with k(1,2) show ?thesis by (intro exI [of _ "Suc k"]) simp
  next
    case False
    then have "snd (urlopen (Suc n) r req w) = w\<lparr>wire := wire w @ replicate 1 req\<rparr>"
      by (simp add: attempt_def)
    then show ?thesis by (intro exI [of _ 1]) simp
  qed
qed


lemma make_request_snd:
  "snd (make_request c m ep ps js w) =
   snd (session_request c \<lparr>verb = m, url = make_url c ep, params = ps, json = js\<rparr> w)"
  by (auto simp: make_request_def split: prod.splits sum.splits)

lemma make_request_refused:
  "\<not> json_ok js \<Longrightarrow> make_request c m ep ps js w = (Inl InvalidJSONError, w)"
  by (simp add: make_request_def session_request_def)

lemma make_request_transmitted:
  assumes "json_ok js"
  shows "\<exists>k. 1 \<le> k \<and> transmitted w (snd (make_request c m ep ps js w)) =
     replicate k \<lparr>verb = m, url = make_url c ep, params = ps, json = js\<rparr>"
proof -
  let ?req = "\<lparr>verb = m, url = make_url c ep, params = ps, json = js\<rparr>"
  from urlopen_wire [of "total (max_retries c)" "max_retries c" ?req w]
  obtain k where "1 \<le> k"
    "snd (urlopen (total (max_retries c)) (max_retries c) ?req w) = w\<lparr>wire := wire w @ replicate k ?req\<rparr>"
    by blast
  with assms show ?thesis
    by (intro exI [of _ k]) (simp add: make_request_snd session_request_def transmitted_def)
qed

lemma make_request_sends_only:
  "r \<in> set (transmitted w (snd (make_request c m ep ps js w))) \<Longrightarrow>
   r = \<lparr>verb = m, url = make_url c ep, params = ps, json = js\<rparr>"
proof (cases "json_ok js")
  case True
  assume r: "r \<in> set (transmitted w (snd (make_request c m ep ps js w)))"
  from make_request_transmitted [OF True, of w c m ep ps] obtain k where
    "transmitted w (snd (make_request c m ep ps js w)) =
       replicate k \<lparr>verb = m, url = make_url c ep, params = ps, json = js\<rparr>" by blast
  with r show ?thesis by simp
next
  case False
  assume r: "r \<in> set (transmitted w (snd (make_request c m ep ps js w)))"
  with make_request_refused [OF False, of c m ep ps w] show ?thesis
    by (simp add: transmitted_def)
qed


section \<open>Validation of the quote request\<close>

lemma quote_body_fail_no_call:
  "quote_body a = Inl e \<Longrightarrow> get_market_quote c a w = (Inl e, w)"
  by (simp add: get_market_quote_def)

lemma get_market_quote_sends:
  assumes "quote_body a = Inr b" and "json_ok (Some b)"
  shows "\<exists>k. 1 \<le> k \<and> transmitted w (snd (get_market_quote c a w)) =
           replicate k \<lparr>verb = ''POST'', url = make_url c ''/markets/quote'', params = None, json = Some b\<rparr>"
  using assms make_request_transmitted [of "Some b" w c "''POST''" "''/markets/quote''" None]
  by (simp add: get_market_quote_def)

lemma get_market_quote_sends_only:
  assumes "quote_body a = Inr b" and "r \<in> set (transmitted w (snd (get_market_quote c a w)))"
  shows "json r = Some b"
  using assms make_request_sends_only [of r w c "''POST''" "''/markets/quote''" None "Some b"]
  by (simp add: get_market_quote_def)

lemma quote_addressing_cases:
  "quote_addressing a = Inl (ValueError ''Must provide either market_slug or (market_id + network_id)'')
   \<or> (\<exists>s. quote_addressing a = Inr [(''market_slug'', JStr s)])
   \<or> (\<exists>m n. quote_addressing a = Inr [(''market_id'', JInt m), (''network_id'', JInt n)])"
  by (auto simp: quote_addressing_def split: option.splits)

lemma quote_addressing_finite:
  "quote_addressing a = Inr b0 \<Longrightarrow> list_all (\<lambda>(k, v). finite_jval v) b0 \<and> map_of b0 ''shares'' = None"
  using quote_addressing_cases [of a] by auto

text \<open>
  C1. A quote request with the action \<open>buy\<close> and no \<open>value\<close> ends in a \<open>ValueError\<close>
  and the network is left as it was: no request is transmitted. Nothing is assumed about
  \<open>shares\<close> or about any other argument.
\<close>

theorem buy_requires_value:
  assumes "action a = ''buy''" and "qvalue a = None"
  shows "\<exists>msg. get_market_quote c a w = (Inl (ValueError msg), w)"
proof -
  have "\<exists>msg. quote_body a = Inl (ValueError msg)"
    using assms quote_addressing_cases [of a]
    by (auto simp: quote_body_def quote_sizing_def)
  then show ?thesis by (auto simp: quote_body_fail_no_call)
qed

theorem buy_requires_value_witness:
  "\<exists>msg. get_market_quote client0 (quote0\<lparr>qvalue := None, shares := Some (Num 10)\<rparr>) (answering (\<lambda>i. 200))
     = (Inl (ValueError msg), answering (\<lambda>i. 200))"
  using buy_requires_value [of "quote0\<lparr>qvalue := None, shares := Some (Num 10)\<rparr>" client0
      "answering (\<lambda>i. 200)"]
  by (simp add: quote0_def)

text \<open>
  C2. A quote request with the action \<open>sell\<close>, no \<open>value\<close> and no \<open>shares\<close> ends in a
  \<open>ValueError\<close>, and no request is transmitted.
\<close>

theorem sell_requires_value_or_shares:
  assumes "action a = ''sell''" and "qvalue a = None" and "shares a = None"
  shows "\<exists>msg. get_market_quote c a w = (Inl (ValueError msg), w)"
proof -
  have "\<exists>msg. quote_body a = Inl (ValueError msg)"
    using assms quote_addressing_cases [of a]
    by (auto simp: quote_body_def quote_sizing_def)
  then show ?thesis by (auto simp: quote_body_fail_no_call)
qed

theorem sell_requires_value_or_shares_witness:
  "\<exists>msg. get_market_quote client0 (quote0\<lparr>action := ''sell'', qvalue := None\<rparr>) (answering (\<lambda>i. 200))
     = (Inl (ValueError msg), answering (\<lambda>i. 200))"
  using sell_requires_value_or_shares [of "quote0\<lparr>action := ''sell'', qvalue := None\<rparr>" client0
      "answering (\<lambda>i. 200)"]
  by (simp add: quote0_def)

text \<open>
  C3. For the action \<open>sell\<close> with both \<open>value\<close> and \<open>shares\<close> given, every request the
  call transmits carries a JSON body with the key \<open>value\<close> holding the given value and
  without the key \<open>shares\<close>; and when the addressing mode resolves and the value and the
  slippage are finite, a request is transmitted.
\<close>

theorem sell_value_precedes_shares:
  assumes "action a = ''sell''" and "qvalue a = Some v" and "shares a = Some sh"
  shows "(\<forall>req \<in> set (transmitted w (snd (get_market_quote c a w))).
            \<exists>b. json req = Some b \<and> map_of b ''value'' = Some (JNum v) \<and> map_of b ''shares'' = None)
       \<and> (\<forall>b0. quote_addressing a = Inr b0 \<and> is_finite v \<and> is_finite (slippage_of a) \<longrightarrow>
             transmitted w (snd (get_market_quote c a w)) \<noteq> [])"
proof (cases "quote_addressing a")
  case (Inl e)
  then have "get_market_quote c a w = (Inl e, w)"
    by (simp add: quote_body_fail_no_call quote_body_def)
  with Inl show ?thesis by (simp add: transmitted_def)
next
  case (Inr b0)
  define b where "b = dict_set ''value'' (JNum v) (dict_set ''slippage'' (JNum (slippage_of a))
               (dict_set ''action'' (JStr (action a))
                 (dict_set ''outcome_id'' (JInt (outcome_id a)) b0)))"
  have qb: "quote_body a = Inr b"
    using assms Inr by (simp add: quote_body_def quote_sizing_def b_def)
  from quote_addressing_finite [OF Inr]
  have fin0: "list_all (\<lambda>(k, v). finite_jval v) b0" and sh: "map_of b0 ''shares'' = None"
    by blast+
  have keys: "map_of b ''value'' = Some (JNum v) \<and> map_of b ''shares'' = None"
    using sh by (simp add: b_def map_of_dict_set)
  have only: "\<exists>b. json req = Some b \<and> map_of b ''value'' = Some (JNum v) \<and> map_of b ''shares'' = None"
    if "req \<in> set (transmitted w (snd (get_market_quote c a w)))" for req
    using get_market_quote_sends_only [OF qb that] keys by blast
  have sent: "transmitted w (snd (get_market_quote c a w)) \<noteq> []"
    if "is_finite v" and "is_finite (slippage_of a)"
  proof -
    have "json_ok (Some b)"
      using that fin0 by (simp add: json_ok_def b_def list_all_dict_set)
    from get_market_quote_sends [OF qb this, of w c] show ?thesis by auto
  qed
  from only sent show ?thesis by blast
qed

theorem sell_value_precedes_shares_witness:
  "transmitted (answering (\<lambda>i. 200))
        (snd (get_market_quote client0 (quote0\<lparr>action := ''sell'', shares := Some (Num 10)\<rparr>)
           (answering (\<lambda>i. 200))))
       \<noteq> []
   \<and> (\<exists>b. json (hd (transmitted (answering (\<lambda>i. 200))
          (snd (get_market_quote client0 (quote0\<lparr>action := ''sell'', shares := Some (Num 10)\<rparr>)
             (answering (\<lambda>i. 200)))))) = Some b
        \<and> map_of b ''value'' = Some (JNum (Num 100)) \<and> map_of b ''shares'' = None)"
proof -
  let ?a = "quote0\<lparr>action := ''sell'', shares := Some (Num 10)\<rparr>"
  let ?t = "transmitted (answering (\<lambda>i. 200)) (snd (get_market_quote client0 ?a (answering (\<lambda>i. 200))))"
  have h: "action ?a = ''sell''" "qvalue ?a = Some (Num 100)" "shares ?a = Some (Num 10)"
    by (simp_all add: quote0_def)
  note t = sell_value_precedes_shares [OF h, of "answering (\<lambda>i. 200)" client0]
  have ad: "quote_addressing ?a = Inr [(''market_slug'', JStr ''btc-100k'')]"
    by (simp add: quote_addressing_def truthy_def quote0_def)
  have fin: "is_finite (Num 100)" "is_finite (slippage_of ?a)"
    by (simp_all add: slippage_of_def quote0_def)
  from t ad fin have ne: "?t \<noteq> []" by blast
  then have "hd ?t \<in> set ?t" by simp
  with t have "\<exists>b. json (hd ?t) = Some b \<and> map_of b ''value'' = Some (JNum (Num 100))
      \<and> map_of b ''shares'' = None"
    by blast
  with ne show ?thesis by (rule conjI)
qed

text \<open>
  C4. The addressing mode is resolved before the action is looked at. Without a slug
  (absent or empty) and without the full pair of \<open>market_id\<close> and \<open>network_id\<close> the call
  ends in the \<open>ValueError\<close> about addressing, whatever the action, \<open>value\<close> and \<open>shares\<close>
  are; once the addressing mode is resolved, an action other than \<open>buy\<close> and \<open>sell\<close>
  ends in the \<open>ValueError\<close> about the action; and whenever building the body fails, no
  request is transmitted.
\<close>

theorem quote_validation_order:
  "(truthy (market_slug a) = None \<and> (market_id a = None \<or> network_id a = None) \<longrightarrow>
      get_market_quote c a w =
        (Inl (ValueError ''Must provide either market_slug or (market_id + network_id)''), w))
   \<and> ((truthy (market_slug a) \<noteq> None \<or> (market_id a \<noteq> None \<and> network_id a \<noteq> None)) \<and>
        action a \<noteq> ''buy'' \<and> action a \<noteq> ''sell'' \<longrightarrow>
      get_market_quote c a w = (Inl (ValueError (''Action must be 'buy' or 'sell'' @ [CHR 0x27])), w))
   \<and> (\<forall>e. quote_body a = Inl e \<longrightarrow> get_market_quote c a w = (Inl e, w))"
  by (auto simp: get_market_quote_def quote_body_def quote_addressing_def quote_sizing_def
           split: option.splits)

theorem quote_validation_order_witness:
  "get_market_quote client0 (quote0\<lparr>action := ''hold'', market_slug := None, market_id := Some 7, qvalue := None\<rparr>)
       (answering (\<lambda>i. 200))
     = (Inl (ValueError ''Must provide either market_slug or (market_id + network_id)''), answering (\<lambda>i. 200))
   \<and> get_market_quote client0 (quote0\<lparr>action := ''hold''\<rparr>) (answering (\<lambda>i. 200))
     = (Inl (ValueError (''Action must be 'buy' or 'sell'' @ [CHR 0x27])), answering (\<lambda>i. 200))"
  using
    quote_validation_order [of "quote0\<lparr>action := ''hold'', market_slug := None, market_id := Some 7, qvalue := None\<rparr>"
      client0 "answering (\<lambda>i. 200)"]
    quote_validation_order [of "quote0\<lparr>action := ''hold''\<rparr>" client0 "answering (\<lambda>i. 200)"]
  by (simp add: quote0_def truthy_def)

text \<open>
  The builder takes an infinite slippage as it takes any other, but the body then cannot
  be encoded: the call ends in \<open>InvalidJSONError\<close> and nothing is transmitted.
\<close>

theorem infinite_slippage_not_transmitted:
  "quote_body (quote0\<lparr>slippage := Some PosInf\<rparr>) =
     Inr [(''market_slug'', JStr ''btc-100k''), (''outcome_id'', JInt 0), (''action'', JStr ''buy''),
          (''slippage'', JNum PosInf), (''value'', JNum (Num 100))]
   \<and> get_market_quote client0 (quote0\<lparr>slippage := Some PosInf\<rparr>) (answering (\<lambda>i. 200))
       = (Inl InvalidJSONError, answering (\<lambda>i. 200))"
  by (simp add: get_market_quote_def quote_body_def quote_addressing_def quote_sizing_def quote0_def
        truthy_def slippage_of_def make_request_def session_request_def json_ok_def)

text \<open>
  C10, as the code has it. When the body of a quote request is built, it holds
  \<open>outcome_id\<close>, \<open>action\<close> and \<open>slippage\<close>, the slippage being the caller's value (0.005
  when left out). No range is checked: with any other slippage \<open>s\<close>, negative or above 1
  included, the body is built as well and carries \<open>s\<close> as it is. The body built is the
  JSON body of every request the call transmits. When every number in it is finite, a
  request is transmitted; when one is an infinity or a NaN, the call ends in
  \<open>InvalidJSONError\<close> and nothing is transmitted.
\<close>

theorem quote_common_keys:
  assumes "quote_body a = Inr b"
  shows "map_of b ''outcome_id'' = Some (JInt (outcome_id a))
       \<and> map_of b ''action'' = Some (JStr (action a))
       \<and> map_of b ''slippage'' = Some (JNum (case slippage a of None \<Rightarrow> Num 0.005 | Some s \<Rightarrow> s))
       \<and> (\<forall>s. \<exists>b'. quote_body (a\<lparr>slippage := Some s\<rparr>) = Inr b' \<and> map_of b' ''slippage'' = Some (JNum s))
       \<and> (\<forall>req \<in> set (transmitted w (snd (get_market_quote c a w))). json req = Some b)
       \<and> (json_ok (Some b) \<longrightarrow> transmitted w (snd (get_market_quote c a w)) \<noteq> [])
       \<and> (\<not> json_ok (Some b) \<longrightarrow> get_market_quote c a w = (Inl InvalidJSONError, w))"
proof -
  have k1: "map_of b ''outcome_id'' = Some (JInt (outcome_id a)) \<and> map_of b ''action'' = Some (JStr (action a))
       \<and> map_of b ''slippage'' = Some (JNum (case slippage a of None \<Rightarrow> Num 0.005 | Some s \<Rightarrow> s))"
    using assms
    by (auto simp: quote_body_def quote_sizing_def slippage_of_def Let_def map_of_dict_set
             split: sum.splits if_splits option.splits)
  have k2: "\<exists>b'. quote_body (a\<lparr>slippage := Some s\<rparr>) = Inr b' \<and> map_of b' ''slippage'' = Some (JNum s)" for s
    using assms
    by (auto simp: quote_body_def quote_sizing_def quote_addressing_def slippage_of_def Let_def
               map_of_dict_set
             split: sum.splits if_splits option.splits)
  have k3: "json req = Some b" if "req \<in> set (transmitted w (snd (get_market_quote c a w)))" for req
    using get_market_quote_sends_only [OF assms that] .
  have k4: "transmitted w (snd (get_market_quote c a w)) \<noteq> []" if "json_ok (Some b)"
    using get_market_quote_sends [OF assms that, of w c] by auto
  have k5: "get_market_quote c a w = (Inl InvalidJSONError, w)" if "\<not> json_ok (Some b)"
    using assms that by (simp add: get_market_quote_def make_request_refused)
  from k1 k2 k3 k4 k5 show ?thesis by blast
qed

theorem quote_common_keys_witness:
  "quote_body (quote0\<lparr>slippage := Some (Num (- 1))\<rparr>) =
     Inr [(''market_slug'', JStr ''btc-100k''), (''outcome_id'', JInt 0), (''action'', JStr ''buy''),
          (''slippage'', JNum (Num (- 1))), (''value'', JNum (Num 100))]
   \<and> (\<exists>b'. quote_body (quote0\<lparr>slippage := Some (Num 5)\<rparr>) = Inr b'
          \<and> map_of b' ''slippage'' = Some (JNum (Num 5)))
   \<and> transmitted (answering (\<lambda>i. 200))
        (snd (get_market_quote client0 (quote0\<lparr>slippage := Some (Num (- 1))\<rparr>) (answering (\<lambda>i. 200)))) \<noteq> []"
proof -
  let ?b = "[(''market_slug'', JStr ''btc-100k''), (''outcome_id'', JInt 0), (''action'', JStr ''buy''),
          (''slippage'', JNum (Num (- 1))), (''value'', JNum (Num 100))]"
  have h: "quote_body (quote0\<lparr>slippage := Some (Num (- 1))\<rparr>) = Inr ?b"
    by (simp add: quote_body_def quote_addressing_def quote_sizing_def quote0_def truthy_def
          slippage_of_def)
  have ok: "json_ok (Some ?b)"
    by (simp add: json_ok_def)
  note t = quote_common_keys [OF h, of "answering (\<lambda>i. 200)" client0]
  from t have "\<forall>s. \<exists>b'. quote_body (quote0\<lparr>slippage := Some (Num (- 1)), slippage := Some s\<rparr>) = Inr b'
            \<and> map_of b' ''slippage'' = Some (JNum s)"
    by blast
  then have five: "\<exists>b'. quote_body (quote0\<lparr>slippage := Some (Num 5)\<rparr>) = Inr b'
            \<and> map_of b' ''slippage'' = Some (JNum (Num 5))"
    by (metis (no_types) quote_args.update_convs(8) quote_args.surjective)
  from t ok have "transmitted (answering (\<lambda>i. 200))
        (snd (get_market_quote client0 (quote0\<lparr>slippage := Some (Num (- 1))\<rparr>) (answering (\<lambda>i. 200)))) \<noteq> []"
    by blast
  with h five show ?thesis by (intro conjI)
qed

section \<open>The retry budget of the transport\<close>

text \<open>
  C8. A transport call of the client, with the method \<open>GET\<close> or \<open>POST\<close> and a body, if it
  has one, that can be encoded, whose first three attempts are answered with the status
  503: when the fourth answer is a 200 with the body \<open>j\<close>, the call returns \<open>j\<close>; when
  the fourth answer is a 503 as well, the call fails with \<open>RetryError\<close>. Either way the
  request has gone out four times.
\<close>

theorem retry_budget:
  assumes m: "m = ''GET'' \<or> m = ''POST''"
    and js: "json_ok js"
    and s503: "\<forall>i<3. status_code (upstream w (length (wire w) + i)) = 503"
  shows "(upstream w (length (wire w) + 3) = \<lparr>status_code = 200, body = Some j\<rparr> \<longrightarrow>
            make_request (MyriadAPIClient env key burl tmo) m ep ps js w =
              (Inr j, w\<lparr>wire := wire w @ replicate 4
                 \<lparr>verb = m, url = make_url (MyriadAPIClient env key burl tmo) ep, params = ps, json = js\<rparr>\<rparr>))
       \<and> (status_code (upstream w (length (wire w) + 3)) = 503 \<longrightarrow>
            make_request (MyriadAPIClient env key burl tmo) m ep ps js w =
              (Inl RetryError, w\<lparr>wire := wire w @ replicate 4
                 \<lparr>verb = m, url = make_url (MyriadAPIClient env key burl tmo) ep, params = ps, json = js\<rparr>\<rparr>))"
proof -
  let ?c = "MyriadAPIClient env key burl tmo"
  let ?req = "\<lparr>verb = m, url = make_url ?c ep, params = ps, json = js\<rparr>"
  let ?n = "length (wire w)"
  have r: "is_retry retry_strategy m 503" "\<not> is_retry retry_strategy m 200"
    using m by (auto simp: is_retry_def retry_strategy_def)
  have s0: "status_code (upstream w ?n) = 503"
    using s503 [rule_format, of 0] by simp
  have s1: "status_code (upstream w (Suc ?n)) = 503"
    using s503 [rule_format, of 1] by simp
  have s2: "status_code (upstream w (Suc (Suc ?n))) = 503"
    using s503 [rule_format, of 2] by simp
  have three: "urlopen 3 retry_strategy ?req w =
      urlopen 0 retry_strategy ?req (w\<lparr>wire := wire w @ replicate 3 ?req\<rparr>)"
    using r(1) s0 s1 s2 by (simp add: numeral_3_eq_3 attempt_def)
  have n3: "length (wire w) + 3 = Suc (Suc (Suc ?n))" by simp
  have rep: "wire w @ replicate 3 ?req @ [?req] = wire w @ replicate 4 ?req"
    by (simp add: numeral_3_eq_3 numeral_Bit0 replicate_append_same)
  have ok: "make_request ?c m ep ps js w = (Inr j, w\<lparr>wire := wire w @ replicate 4 ?req\<rparr>)"
    if "upstream w (?n + 3) = \<lparr>status_code = 200, body = Some j\<rparr>"
  proof -
    have "urlopen 3 retry_strategy ?req w =
        (Inr \<lparr>status_code = 200, body = Some j\<rparr>, w\<lparr>wire := wire w @ replicate 4 ?req\<rparr>)"
      unfolding three using that r(2) rep by (simp add: attempt_def n3)
    then show ?thesis
      using js
      by (simp add: make_request_def session_request_def MyriadAPIClient_def
          raise_for_status_def response_json_def retry_strategy_def)
  qed
  have bad: "make_request ?c m ep ps js w = (Inl RetryError, w\<lparr>wire := wire w @ replicate 4 ?req\<rparr>)"
    if "status_code (upstream w (?n + 3)) = 503"
  proof -
    have "urlopen 3 retry_strategy ?req w = (Inl RetryError, w\<lparr>wire := wire w @ replicate 4 ?req\<rparr>)"
      unfolding three using that r(1) rep by (simp add: attempt_def n3)
    then show ?thesis
      using js
      by (simp add: make_request_def session_request_def MyriadAPIClient_def retry_strategy_def)
  qed
  from ok bad show ?thesis by blast
qed

theorem retry_budget_witness:
  "make_request client0 ''GET'' ''/markets'' None None (answering (\<lambda>i. if i < 3 then 503 else 200))
     = (Inr (JStr ''ok''),
        (answering (\<lambda>i. if i < 3 then 503 else 200))
          \<lparr>wire := replicate 4 \<lparr>verb = ''GET'', url = ''https://api-v2.myriadprotocol.com/markets'',
                                 params = None, json = None\<rparr>\<rparr>)
   \<and> make_request client0 ''POST'' ''/markets/quote'' None None (answering (\<lambda>i. 503))
     = (Inl RetryError,
        (answering (\<lambda>i. 503))
          \<lparr>wire := replicate 4 \<lparr>verb = ''POST'', url = ''https://api-v2.myriadprotocol.com/markets/quote'',
                                 params = None, json = None\<rparr>\<rparr>)"
  using
    retry_budget [where m = "''GET''" and w = "answering (\<lambda>i. if i < 3 then 503 else 200)"
      and j = "JStr ''ok''" and env = None and key = None
      and burl = "''https://api-v2.myriadprotocol.com/''" and tmo = 30 and ep = "''/markets''"
      and ps = None and js = None]
    retry_budget [where m = "''POST''" and w = "answering (\<lambda>i. 503)"
      and j = "JStr ''ok''" and env = None and key = None
      and burl = "''https://api-v2.myriadprotocol.com/''" and tmo = 30 and ep = "''/markets/quote''"
      and ps = None and js = None]
  by (simp add: client0_def answering_def make_url_def MyriadAPIClient_def rstrip_def lstrip_def
        json_ok_def)

section \<open>Addressing a market: slug or id with network\<close>







text \<open>
  C6. The claim asks that \<open>get_market_events\<close> and \<open>get_market_holders\<close> require
  \<open>network_id\<close> when \<open>market_id\<close> is given without a slug, as \<open>get_market\<close> does. The
  code does not: with \<open>market_id = 5\<close>, no slug and no \<open>network_id\<close> both send their
  request, without a \<open>network_id\<close> parameter, where \<open>get_market\<close> on the same arguments
  ends in a \<open>ValueError\<close> and sends nothing.
\<close>

theorem events_holders_accept_id_without_network:
  "get_market_events client0 (Some 5) None None 1 50 None None (answering (\<lambda>i. 200)) =
     (Inr (JStr ''ok''),
      (answering (\<lambda>i. 200))
        \<lparr>wire := [\<lparr>verb = ''GET'', url = ''https://api-v2.myriadprotocol.com/markets/5/events'',
                   params = Some [(''page'', JInt 1), (''limit'', JInt 50)], json = None\<rparr>]\<rparr>)
   \<and> get_market_holders client0 (Some 5) None None 1 50 (answering (\<lambda>i. 200)) =
     (Inr (JStr ''ok''),
      (answering (\<lambda>i. 200))
        \<lparr>wire := [\<lparr>verb = ''GET'', url = ''https://api-v2.myriadprotocol.com/markets/5/holders'',
                   params = Some [(''page'', JInt 1), (''limit'', JInt 50)], json = None\<rparr>]\<rparr>)
   \<and> get_market client0 (Some 5) None None (answering (\<lambda>i. 200)) =
     (Inl (ValueError ''Must provide either slug or (market_id + network_id)''), answering (\<lambda>i. 200))"
  by (simp add: get_market_events_def events_request_def get_market_holders_def holders_request_def
        get_market_def put_opt_def truthy_def str_int_def str_nat.simps [of 5] digit_char_def
        make_request_def session_request_def json_ok_def client0_def MyriadAPIClient_def
        retry_strategy_def numeral_3_eq_3 attempt_def answering_def is_retry_def
        raise_for_status_def response_json_def make_url_def rstrip_def lstrip_def)

section \<open>The recent decisions\<close>

lemma take_append_take: "take n (xs @ take n ys) = take n (xs @ ys)"
  by (simp add: min_def)

lemma map_of_py_update: "map_of (py_update s d) = map_of s ++ map_of (rev d)"
proof (induction d arbitrary: s)
  case Nil
  show ?case by (simp add: py_update_def)
next
  case (Cons p d)
  obtain k v where p: "p = (k, v)" by (cases p)
  have "py_update s (p # d) = py_update (dict_set k v s) d"
    by (simp add: py_update_def p)
  then show ?case
    using Cons.IH [of "dict_set k v s"]
    by (simp add: p map_of_dict_set map_add_def fun_eq_iff split: option.splits)
qed

lemma update_state_decisions:
  "map_of (update_state d now s) ''recent_decisions'' =
     (case map_of (rev d) ''recent_decisions'' of
        None \<Rightarrow> map_of s ''recent_decisions''
      | Some v \<Rightarrow> Some v)"
  by (simp add: update_state_def map_of_dict_set map_of_py_update map_add_def)

lemma add_decision_list:
  "map_of s ''recent_decisions'' = Some (PList xs) \<Longrightarrow>
   add_decision d s = Inr (dict_set ''recent_decisions'' (PList (take 100 (decision_dict d # xs))) s)"
  by (simp add: add_decision_def)

lemma add_decision_not_list:
  "\<forall>xs. map_of s ''recent_decisions'' \<noteq> Some (PList xs) \<Longrightarrow> add_decision d s = Inl InternalServerError"
  by (auto simp: add_decision_def split: option.splits pyval.splits)

lemma ingest_Cons: "ingest (d # ds) s = ingest ds (step (AddDecision d) s)"
  by (simp add: ingest_def run_def)

lemma ingest_recent:
  "map_of s ''recent_decisions'' = Some (PList xs) \<Longrightarrow> length xs \<le> 100 \<Longrightarrow>
   map_of (ingest ds s) ''recent_decisions'' = Some (PList (take 100 (rev (map decision_dict ds) @ xs)))"
proof (induction ds arbitrary: s xs)
  case Nil
  then show ?case by (simp add: ingest_def run_def)
next
  case (Cons d ds)
  let ?s' = "step (AddDecision d) s"
  have s': "map_of ?s' ''recent_decisions'' = Some (PList (take 100 (decision_dict d # xs)))"
    using Cons.prems(1) by (simp add: add_decision_list map_of_dict_set)
  have e1: "map_of (ingest (d # ds) s) ''recent_decisions'' =
      Some (PList (take 100 (rev (map decision_dict ds) @ take 100 (decision_dict d # xs))))"
    unfolding ingest_Cons by (rule Cons.IH [OF s']) simp
  have e2: "take 100 (rev (map decision_dict ds) @ take 100 (decision_dict d # xs)) =
      take 100 (rev (map decision_dict ds) @ decision_dict d # xs)"
    by (rule take_append_take)
  have e3: "rev (map decision_dict (d # ds)) @ xs = rev (map decision_dict ds) @ decision_dict d # xs"
    by simp
  show ?case by (simp only: e1 e2 e3)
qed

lemma step_keeps_bound:
  assumes "\<not> breaks_bound op" and "decisions_bounded s"
  shows "decisions_bounded (step op s)"
proof (cases op)
  case (UpdateState d now)
  show ?thesis
  proof (cases "map_of (rev d) ''recent_decisions''")
    case None
    with assms(2) show ?thesis
      by (simp add: UpdateState decisions_bounded_def update_state_decisions)
  next
    case (Some v)
    then have "(''recent_decisions'', v) \<in> set d"
      using map_of_SomeD [of "rev d" "''recent_decisions''" v] by simp
    with assms(1) have "\<not> over_bound v"
      by (auto simp: UpdateState list_ex_iff)
    with Some show ?thesis
      by (simp add: UpdateState decisions_bounded_def update_state_decisions)
  qed
next
  case (AddDecision d)
  show ?thesis
  proof (cases "\<exists>xs. map_of s ''recent_decisions'' = Some (PList xs)")
    case True
    then obtain xs where "map_of s ''recent_decisions'' = Some (PList xs)" by blast
    then show ?thesis
      by (simp add: AddDecision add_decision_list decisions_bounded_def map_of_dict_set)
  next
    case False
    then have "add_decision d s = Inl InternalServerError"
      by (simp add: add_decision_not_list)
    with assms(2) show ?thesis by (simp add: AddDecision)
  qed
next
  case (AddTrade t)
  with assms(2) show ?thesis
    by (auto simp: add_trade_def decisions_bounded_def map_of_dict_set
             split: option.splits pyval.splits)
next
  case (Startup now)
  with assms(2) show ?thesis
    by (simp add: startup_event_def decisions_bounded_def map_of_dict_set)
next
  case Shutdown
  with assms(2) show ?thesis
    by (simp add: shutdown_event_def decisions_bounded_def map_of_dict_set)
qed

lemma run_keeps_bound:
  "\<forall>op \<in> set ops. \<not> breaks_bound op \<Longrightarrow> decisions_bounded s \<Longrightarrow> decisions_bounded (run ops s)"
proof (induction ops arbitrary: s)
  case Nil
  then show ?case by (simp add: run_def)
next
  case (Cons op ops)
  have "run (op # ops) s = run ops (step op s)" by (simp add: run_def)
  with Cons show ?case by (simp add: step_keeps_bound)
qed

text \<open>
  \<open>POST /internal/update-state\<close> puts the value of its body in place of the recent
  decisions, whatever it is: here a list of 101 entries.
\<close>

theorem update_state_breaks_bound:
  "\<not> decisions_bounded
       (run [UpdateState [(''recent_decisions'', PList (replicate 101 (decision_dict (decision_no 0))))]
               ''2025-01-01T00:00:00'']
          gtrader_state0)"
  by (simp add: run_def decisions_bounded_def update_state_decisions)

text \<open>
  C7, as the code has it. When the value under \<open>recent_decisions\<close> is a list,
  \<open>add_decision\<close> puts the new decision at its head and keeps the first 100 entries;
  when it is anything else, \<open>add_decision\<close> fails and the state stays as it was. The
  bound of 100 entries holds after every sequence of operations, started from a state
  where it holds, in which no \<open>update-state\<close> carries a list of more than 100 entries
  for \<open>recent_decisions\<close>. And 105 decisions ingested one after the other into the empty
  state leave 100 entries, the last 100 ingested, newest first.
\<close>

theorem recent_decisions_bounded:
  "(\<forall>xs. map_of s ''recent_decisions'' = Some (PList xs) \<longrightarrow>
       (\<exists>ys. map_of (step (AddDecision d) s) ''recent_decisions'' = Some (PList ys)
          \<and> add_decision d s = Inr (step (AddDecision d) s)
          \<and> ys = take 100 (decision_dict d # xs) \<and> length ys \<le> 100 \<and> ys ! 0 = decision_dict d))
   \<and> ((\<forall>xs. map_of s ''recent_decisions'' \<noteq> Some (PList xs)) \<longrightarrow>
         add_decision d s = Inl InternalServerError \<and> step (AddDecision d) s = s)
   \<and> (decisions_bounded s \<and> (\<forall>op \<in> set ops. \<not> breaks_bound op) \<longrightarrow> decisions_bounded (run ops s))
   \<and> (length ds = 105 \<longrightarrow>
        map_of (ingest ds gtrader_state0) ''recent_decisions''
          = Some (PList (rev (drop 5 (map decision_dict ds))))
        \<and> length (rev (drop 5 (map decision_dict ds))) = 100)"
proof -
  have a: "\<exists>ys. map_of (step (AddDecision d) s) ''recent_decisions'' = Some (PList ys)
          \<and> add_decision d s = Inr (step (AddDecision d) s)
          \<and> ys = take 100 (decision_dict d # xs) \<and> length ys \<le> 100 \<and> ys ! 0 = decision_dict d"
    if "map_of s ''recent_decisions'' = Some (PList xs)" for xs
    using that by (simp add: add_decision_list map_of_dict_set)
  have b: "add_decision d s = Inl InternalServerError \<and> step (AddDecision d) s = s"
    if "\<forall>xs. map_of s ''recent_decisions'' \<noteq> Some (PList xs)"
    using add_decision_not_list [OF that, of d] by simp
  have c: "map_of (ingest ds gtrader_state0) ''recent_decisions''
          = Some (PList (rev (drop 5 (map decision_dict ds))))
        \<and> length (rev (drop 5 (map decision_dict ds))) = 100" if "length ds = 105"
  proof -
    have "map_of gtrader_state0 ''recent_decisions'' = Some (PList [])"
      by (simp add: gtrader_state0_def)
    from ingest_recent [OF this, of ds]
    have "map_of (ingest ds gtrader_state0) ''recent_decisions''
          = Some (PList (take 100 (rev (map decision_dict ds))))"
      by simp
    also have "take 100 (rev (map decision_dict ds)) = rev (drop 5 (map decision_dict ds))"
      using that by (simp add: take_rev)
    finally show ?thesis using that by simp
  qed
  from a b c run_keeps_bound [of ops s] show ?thesis by blast
qed

theorem recent_decisions_bounded_witness:
  "decisions_bounded
      (run [AddDecision (decision_no 7),
            UpdateState [(''recent_decisions'', PList [decision_dict (decision_no 1)]), (''status'', PNone)]
              ''2025-01-01T00:00:00'',
            AddTrade (trade_of ''BTC'' ''filled''), Shutdown]
         gtrader_state0)
   \<and> map_of (ingest (map decision_no [0..<105]) gtrader_state0) ''recent_decisions''
       = Some (PList (rev (drop 5 (map decision_dict (map decision_no [0..<105])))))
   \<and> add_decision (decision_no 7) [(''recent_decisions'', PNone)] = Inl InternalServerError"
proof -
  let ?ops = "[AddDecision (decision_no 7),
            UpdateState [(''recent_decisions'', PList [decision_dict (decision_no 1)]), (''status'', PNone)]
              ''2025-01-01T00:00:00'',
            AddTrade (trade_of ''BTC'' ''filled''), Shutdown]"
  note t1 = recent_decisions_bounded [of gtrader_state0 "decision_no 7" ?ops "map decision_no [0..<105]"]
  note t2 = recent_decisions_bounded [of "[(''recent_decisions'', PNone)]" "decision_no 7" "[]" "[]"]
  have h1: "decisions_bounded gtrader_state0"
    by (simp add: decisions_bounded_def gtrader_state0_def)
  have h2: "\<forall>op \<in> set ?ops. \<not> breaks_bound op"
    by simp
  have h3: "length (map decision_no [0..<105]) = 105"
    by simp
  have h4: "\<forall>xs. map_of [(''recent_decisions'', PNone)] ''recent_decisions'' \<noteq> Some (PList xs)"
    by simp
  from t1 h1 h2 have c1: "decisions_bounded (run ?ops gtrader_state0)" by blast
  from t1 h3 have c2: "map_of (ingest (map decision_no [0..<105]) gtrader_state0) ''recent_decisions''
       = Some (PList (rev (drop 5 (map decision_dict (map decision_no [0..<105])))))" by blast
  from t2 h4 have c3: "add_decision (decision_no 7) [(''recent_decisions'', PNone)] = Inl InternalServerError"
    by blast
  from c1 c2 c3 show ?thesis by (intro conjI)
qed

section \<open>The filters of \<open>GET /trades\<close>\<close>

lemma keep_if_sound:
  "keep_if k x ts = Inr rs \<Longrightarrow> t \<in> set rs \<Longrightarrow> t \<in> set ts \<and> is_dict t \<and> field k t = PStr x"
proof (induction k x ts arbitrary: rs rule: keep_if.induct)
  case (1 k x)
  then show ?case by simp
next
  case (2 k x d ts)
  from "2.prems"(1) obtain rs' where rs': "keep_if k x ts = Inr rs'"
    and rs: "rs = (if dict_get d k = PStr x then PDict d # rs' else rs')"
    by (auto split: sum.splits)
  show ?case
  proof (cases "t \<in> set rs'")
    case True
    with "2.IH" [OF rs'] show ?thesis by simp
  next
    case False
    with "2.prems"(2) rs have "t = PDict d" "dict_get d k = PStr x"
      by (auto split: if_splits)
    then show ?thesis by simp
  qed
qed simp_all

lemma keep_if_dicts:
  "list_all is_dict ts \<Longrightarrow> keep_if k x ts = Inr (filter (\<lambda>t. field k t = PStr x) ts)"
proof (induction ts)
  case Nil
  show ?case by simp
next
  case (Cons t ts)
  then obtain d where "t = PDict d" by (cases t) simp_all
  with Cons show ?case by simp
qed

lemma filter_field_sound:
  assumes "filter_field k (Some x) trades = Inr v"
  shows "\<exists>rs. v = PList rs \<and> (\<forall>t \<in> set rs. is_dict t \<and> field k t = PStr x)
           \<and> (\<forall>ts. trades = PList ts \<longrightarrow> set rs \<subseteq> set ts)"
proof -
  from assms obtain ts rs where ts: "py_iter trades = Inr ts" and rs: "keep_if k x ts = Inr rs"
    and v: "v = PList rs"
    by (auto simp: filter_field_def split: sum.splits)
  have "\<forall>t \<in> set rs. t \<in> set ts \<and> is_dict t \<and> field k t = PStr x"
    using keep_if_sound [OF rs] by blast
  moreover have "ts' = ts" if "trades = PList ts'" for ts'
    using ts that by simp
  ultimately show ?thesis using v by blast
qed

text \<open>
  Only the query is put in upper case: a trade stored with the asset \<open>btc\<close> is not
  returned for \<open>asset=BTC\<close>.
\<close>

theorem trades_stored_lowercase_not_matched:
  "get_trade_history ascii_upper (run [AddTrade (trade_of ''btc'' ''filled'')] gtrader_state0)
     None (Some ''BTC'') (Some ''filled'') = Inr (PList [])"
  by (simp add: get_trade_history_def effective_limit_def filter_field_def truthy_def run_def
        add_trade_def gtrader_state0_def trade_of_def trade_dict_def dict_get_def ascii_upper_def
        ascii_lowercase_def ascii_uppercase_def)

text \<open>
  C9, as the code has it. A filter is given when it is a non-empty string, which is what
  \<open>if asset:\<close> and \<open>if status:\<close> test; the limit is the one given, 50 when none is.
  With both filters given, whatever the state holds under \<open>trade_history\<close>: when the
  handler returns, it returns a list, and every entry of it is a dictionary whose
  \<open>asset\<close> is the query put in upper case and whose \<open>status\<close> is the query status; and
  when the history is a list of dictionaries, the answer is the first \<open>limit\<close> such
  entries of it, in stored order. So the stored asset is compared as it is stored, with
  the query in upper case.
\<close>

theorem trades_filter:
  assumes q: "q \<noteq> []" and x: "x \<noteq> []"
    and lim: "1 \<le> effective_limit limit" "effective_limit limit \<le> 500"
  shows "(\<forall>v. get_trade_history str_upper s limit (Some q) (Some x) = Inr v \<longrightarrow>
            (\<exists>rs. v = PList rs \<and> (\<forall>t \<in> set rs. matches (str_upper q) x t)))
       \<and> (\<forall>ts. map_of s ''trade_history'' = Some (PList ts) \<and> list_all is_dict ts \<longrightarrow>
            get_trade_history str_upper s limit (Some q) (Some x) =
              Inr (PList (take (nat (effective_limit limit)) (filter (matches (str_upper q) x) ts))))"
proof -
  let ?n = "effective_limit limit"
  have sound: "\<exists>rs. v = PList rs \<and> (\<forall>t \<in> set rs. matches (str_upper q) x t)"
    if v: "get_trade_history str_upper s limit (Some q) (Some x) = Inr v" for v
  proof -
    from v q x lim obtain trades t1 t2 where
      f1: "filter_field ''asset'' (Some (str_upper q)) trades = Inr t1" and
      f2: "filter_field ''status'' (Some x) t1 = Inr t2" and
      sl: "py_slice ?n t2 = Inr v"
      by (auto simp: get_trade_history_def truthy_def Let_def split: option.splits sum.splits)
    from filter_field_sound [OF f1] obtain r1 where r1: "t1 = PList r1"
      "\<forall>t \<in> set r1. is_dict t \<and> field ''asset'' t = PStr (str_upper q)" by blast
    from filter_field_sound [OF f2] r1(1) obtain r2 where r2: "t2 = PList r2"
      "\<forall>t \<in> set r2. is_dict t \<and> field ''status'' t = PStr x" "set r2 \<subseteq> set r1" by blast
    from sl r2(1) have v': "v = PList (take (nat ?n) r2)" by auto
    have "\<forall>t \<in> set (take (nat ?n) r2). matches (str_upper q) x t"
      using r1(2) r2(2,3) by (auto simp: matches_def dest: in_set_takeD)
    with v' show ?thesis by blast
  qed
  have exact: "get_trade_history str_upper s limit (Some q) (Some x) =
              Inr (PList (take (nat ?n) (filter (matches (str_upper q) x) ts)))"
    if th: "map_of s ''trade_history'' = Some (PList ts)" and ds: "list_all is_dict ts" for ts
  proof -
    let ?r1 = "filter (\<lambda>t. field ''asset'' t = PStr (str_upper q)) ts"
    have f1: "filter_field ''asset'' (Some (str_upper q)) (PList ts) = Inr (PList ?r1)"
      by (simp add: filter_field_def keep_if_dicts [OF ds])
    have ds1: "list_all is_dict ?r1"
      using ds by (simp add: list_all_iff)
    have f2: "filter_field ''status'' (Some x) (PList ?r1) =
        Inr (PList (filter (\<lambda>t. field ''status'' t = PStr x) ?r1))"
      by (simp add: filter_field_def keep_if_dicts [OF ds1])
    have eq: "filter (\<lambda>t. field ''status'' t = PStr x) ?r1 = filter (matches (str_upper q) x) ts"
      using ds by (auto simp: matches_def list_all_iff intro: filter_cong)
    have res: "get_trade_history str_upper s limit (Some q) (Some x) =
        py_slice ?n (PList (filter (\<lambda>t. field ''status'' t = PStr x) ?r1))"
      using q x lim th by (simp add: get_trade_history_def truthy_def Let_def f1 f2)
    show ?thesis
      unfolding res eq by simp
  qed
  from sound exact show ?thesis by blast
qed

theorem trades_filter_witness:
  "get_trade_history ascii_upper
       (run [AddTrade (trade_of ''BTC'' ''cancelled''), AddTrade (trade_of ''ETH'' ''filled''),
             AddTrade (trade_of ''BTC'' ''filled'')] gtrader_state0)
       None (Some ''btc'') (Some ''filled'')
     = Inr (PList [trade_dict (trade_of ''BTC'' ''filled'')])"
proof -
  let ?s = "run [AddTrade (trade_of ''BTC'' ''cancelled''), AddTrade (trade_of ''ETH'' ''filled''),
             AddTrade (trade_of ''BTC'' ''filled'')] gtrader_state0"
  let ?ts = "[trade_dict (trade_of ''BTC'' ''filled''), trade_dict (trade_of ''ETH'' ''filled''),
              trade_dict (trade_of ''BTC'' ''cancelled'')]"
  have h: "''btc'' \<noteq> []" "''filled'' \<noteq> []" "1 \<le> effective_limit None" "effective_limit None \<le> 500"
    by (simp_all add: effective_limit_def)
  have th: "map_of ?s ''trade_history'' = Some (PList ?ts)"
    by (simp add: run_def add_trade_def gtrader_state0_def)
  have ds: "list_all is_dict ?ts"
    by (simp add: trade_dict_def)
  have up: "ascii_upper ''btc'' = ''BTC''"
    by (simp add: ascii_upper_def ascii_lowercase_def ascii_uppercase_def)
  note t = trades_filter [OF h, of ascii_upper ?s]
  from t th ds have "get_trade_history ascii_upper ?s None (Some ''btc'') (Some ''filled'') =
      Inr (PList (take (nat (effective_limit None)) (filter (matches (ascii_upper ''btc'') ''filled'') ?ts)))"
    by blast
  then show ?thesis
    unfolding up
    by (simp add: effective_limit_def matches_def trade_dict_def trade_of_def dict_get_def)
qed

end
